theory Spec2Isabelle
  imports Complex_Main "HOL-Library.AList"
begin

section \<open>Conventions of the embedding\<close>

text \<open>
  The backtesting engine is written in Python. Its floats are modelled as exact reals
  (rounding error of IEEE arithmetic is outside the model), share counts as integers,
  insertion-ordered dictionaries as association lists with \<open>AList.update\<close> and
  \<open>AList.delete\<close>, price maps as partial functions, calendar dates as day numbers.
  Log messages and the random uuid identifiers of orders and trades take part in no
  decision and are left out.
\<close>

type_synonym symbol = string
type_synonym date = int
type_synonym prices = "symbol \<rightharpoonup> real"

datatype error = ZeroDivisionError | NameError

text \<open>Python's \<open>round(x)\<close> rounds half to even; \<open>int(x)\<close> truncates towards zero.\<close>

definition py_round :: "real \<Rightarrow> int" where
  "py_round x =
     (let f = \<lfloor>x\<rfloor>; d = x - of_int f
      in if d < 1 / 2 then f else if 1 / 2 < d then f + 1 else if even f then f else f + 1)"

definition py_int :: "real \<Rightarrow> int" where
  "py_int x = (if 0 \<le> x then \<lfloor>x\<rfloor> else \<lceil>x\<rceil>)"

section \<open>orders\_v4.py: Order and Trade\<close>

text \<open>
  Position dictionaries, orders and trades all carry a \<open>quantity\<close>; a trade copies
  symbol, quantity, order type and order date from its order. The shared fields are
  declared once, so that the selectors read as the attributes of the source.
  \<open>order_date\<close> is \<open>None\<close> where the constructor falls back to \<open>date.today()\<close>.
\<close>

record shares =
  quantity :: int

record order_fields = shares +
  symbol :: symbol
  order_type :: string
  order_date :: "date option"

text \<open>
  The reference price of an order is whatever the caller passed third: a number, nothing,
  or (for the sell orders of \<open>generate_orders\<close>, which pass their order date there) a date.
\<close>

datatype price_arg = NoPrice | PriceNum real | PriceDate date

record order = order_fields +
  price :: price_arg

record trade = order_fields +
  execution_date :: date
  execution_price :: real
  commission :: real
  amount :: real
  pnl :: real

definition Order :: "symbol \<Rightarrow> int \<Rightarrow> price_arg \<Rightarrow> string \<Rightarrow> date option \<Rightarrow> order" where
  "Order sy q pr ty od =
     \<lparr>quantity = q, symbol = sy, order_type = ty, order_date = od, price = pr\<rparr>"

definition Trade :: "order \<Rightarrow> date \<Rightarrow> real \<Rightarrow> real \<Rightarrow> real \<Rightarrow> trade" where
  "Trade odr d ep comm amt =
     \<lparr>quantity = quantity odr, symbol = symbol odr, order_type = order_type odr,
      order_date = order_date odr, execution_date = d, execution_price = ep,
      commission = comm, amount = amt, pnl = 0\<rparr>"

section \<open>portfolio\_v4.py: Portfolio\<close>

text \<open>
  A position is the dictionary \<open>{'quantity', 'cost_basis', 'value'}\<close>; the key
  \<open>'value'\<close> is the field \<open>market_value\<close> here. A history snapshot is the dictionary
  \<open>{'cash', 'positions', 'total_value'}\<close>, a deep copy of the portfolio's cash and
  positions.
\<close>

record position = shares +
  cost_basis :: real
  market_value :: real

record holdings =
  cash :: real
  positions :: "(symbol \<times> position) list"

record snapshot = holdings +
  total_value :: real

record portfolio = holdings +
  initial_capital :: real
  history :: "date \<rightharpoonup> snapshot"
  current_date :: "date option"

definition Portfolio :: "real \<Rightarrow> portfolio" where
  "Portfolio capital =
     \<lparr>cash = capital, positions = [], initial_capital = capital, history = Map.empty,
      current_date = None\<rparr>"

definition get_position :: "portfolio \<Rightarrow> symbol \<Rightarrow> position option" where
  "get_position pf sy = map_of (positions pf) sy"

definition add_position :: "symbol \<Rightarrow> int \<Rightarrow> real \<Rightarrow> real option \<Rightarrow> portfolio \<Rightarrow> portfolio" where
  "add_position sy q px cb_arg pf =
     (let cb = (case cb_arg of None \<Rightarrow> px | Some c \<Rightarrow> c)
      in case map_of (positions pf) sy of
           Some pos \<Rightarrow>
             (let current_quantity = quantity pos;
                  current_cost = cost_basis pos * of_int current_quantity;
                  new_quantity = current_quantity + q;
                  new_cost = current_cost + of_int q * cb
              in if new_quantity \<noteq> 0
                 then pf\<lparr>positions :=
                        AList.update sy
                          (pos\<lparr>quantity := new_quantity,
                               cost_basis := new_cost / of_int new_quantity,
                               market_value := of_int new_quantity * px\<rparr>)
                          (positions pf)\<rparr>
                 else pf\<lparr>positions := AList.delete sy (positions pf)\<rparr>)
         | None \<Rightarrow>
             pf\<lparr>positions :=
                  AList.update sy
                    \<lparr>quantity = q, cost_basis = cb, market_value = of_int q * px\<rparr>
                    (positions pf)\<rparr>)"

definition remove_position :: "symbol \<Rightarrow> int \<Rightarrow> real \<Rightarrow> portfolio \<Rightarrow> (bool \<times> real) \<times> portfolio" where
  "remove_position sy q px pf =
     (case map_of (positions pf) sy of
        Some pos \<Rightarrow>
          (let current_quantity = quantity pos
           in if q \<le> current_quantity
              then (let realized = (px - cost_basis pos) * of_int q;
                        new_quantity = current_quantity - q
                    in ((True, realized),
                        (if 0 < new_quantity
                         then pf\<lparr>positions :=
                                AList.update sy
                                  (pos\<lparr>quantity := new_quantity,
                                       market_value := of_int new_quantity * px\<rparr>)
                                  (positions pf)\<rparr>
                         else pf\<lparr>positions := AList.delete sy (positions pf)\<rparr>)))
              else ((False, 0), pf))
      | None \<Rightarrow> ((False, 0), pf))"

text \<open>
  \<open>update_from_trade\<close> first subtracts the trade's amount from the cash, then updates
  the position; the result of a sell comes from \<open>remove_position\<close>.
\<close>

definition update_from_trade :: "trade \<Rightarrow> portfolio \<Rightarrow> (bool \<times> real) \<times> portfolio" where
  "update_from_trade t pf =
     (let pf1 = pf\<lparr>cash := cash pf - amount t\<rparr>;
          r = (if 0 < quantity t
               then ((True, 0), add_position (symbol t) (quantity t) (execution_price t) None pf1)
               else remove_position (symbol t) \<bar>quantity t\<bar> (execution_price t) pf1)
      in (fst r, (snd r)\<lparr>current_date := Some (execution_date t)\<rparr>))"

text \<open>
  \<open>mark_to_market\<close> walks the keys of the positions dictionary, refreshes the value of
  every symbol that has a price, sums the stored values and stores the snapshot under
  the date.
\<close>

definition refresh_value :: "prices \<Rightarrow> symbol \<Rightarrow> portfolio \<Rightarrow> portfolio" where
  "refresh_value ps sy pf =
     (case ps sy of
        Some px \<Rightarrow>
          (case map_of (positions pf) sy of
             Some pos \<Rightarrow>
               pf\<lparr>positions :=
                    AList.update sy (pos\<lparr>market_value := of_int (quantity pos) * px\<rparr>)
                      (positions pf)\<rparr>
           | None \<Rightarrow> pf)
      | None \<Rightarrow> pf)"

definition mark_to_market :: "date \<Rightarrow> prices \<Rightarrow> portfolio \<Rightarrow> portfolio" where
  "mark_to_market d ps pf =
     (let pf1 = fold (refresh_value ps) (map fst (positions pf)) pf;
          tv = cash pf1 + sum_list (map (\<lambda>kv. market_value (snd kv)) (positions pf1))
      in pf1\<lparr>history := (history pf1)(d \<mapsto>
                 \<lparr>cash = cash pf1, positions = positions pf1, total_value = tv\<rparr>),
              current_date := Some d\<rparr>)"

definition get_total_value :: "portfolio \<Rightarrow> prices option \<Rightarrow> real" where
  "get_total_value pf ps_arg =
     (case ps_arg of
        None \<Rightarrow> cash pf + sum_list (map (\<lambda>kv. market_value (snd kv)) (positions pf))
      | Some ps \<Rightarrow>
          cash pf +
          fold (\<lambda>kv acc. case ps (fst kv) of
                             Some px \<Rightarrow> acc + of_int (quantity (snd kv)) * px
                           | None \<Rightarrow> acc + market_value (snd kv))
               (positions pf) 0)"

section \<open>execution\_v4.py: ExecutionEngine\<close>

text \<open>
  The percentage slippage and commission models are determined by their rates, which
  the module reads from the settings once; the engine stores them with its portfolio
  and its trade log.
\<close>

record engine =
  portfolio :: portfolio
  trade_log :: "trade list"
  commission_model :: real
  slippage_model :: real

definition ExecutionEngine :: "real \<Rightarrow> real \<Rightarrow> real \<Rightarrow> engine" where
  "ExecutionEngine capital comm_rate slip_rate =
     \<lparr>portfolio = Portfolio capital, trade_log = [], commission_model = comm_rate,
      slippage_model = slip_rate\<rparr>"

definition calculate_slippage :: "real \<Rightarrow> order \<Rightarrow> real \<Rightarrow> real" where
  "calculate_slippage rate odr px =
     (if 0 < quantity odr then px * (1 + rate) else px * (1 - rate))"

definition calculate_commission :: "real \<Rightarrow> order \<Rightarrow> real \<Rightarrow> real" where
  "calculate_commission rate odr ep = \<bar>of_int (quantity odr) * ep * rate\<bar>"

text \<open>
  The validators return \<open>(is_valid, adjusted_order, message)\<close>; here \<open>None\<close> is the
  invalid result and \<open>Some\<close> carries the order to execute. The adjusted order is a new
  order with the same symbol, price, type and date.
\<close>

definition validate_sell_order :: "engine \<Rightarrow> order \<Rightarrow> prices \<Rightarrow> order option" where
  "validate_sell_order eng odr ps =
     (case ps (symbol odr) of
        None \<Rightarrow> None
      | Some px \<Rightarrow>
          (case get_position (portfolio eng) (symbol odr) of
             None \<Rightarrow> None
           | Some pos \<Rightarrow>
               if quantity pos \<le> 0 then None
               else (let sell_quantity = \<bar>quantity odr\<bar>;
                         current_quantity = quantity pos
                     in if current_quantity < sell_quantity
                        then Some (Order (symbol odr) (- current_quantity) (price odr)
                                     (order_type odr) (order_date odr))
                        else Some odr)))"

text \<open>
  In \<open>validate_buy_order\<close> the division by the execution price is reached only with
  a non-zero execution price (lemma \<open>validate_buy_order_divisor\<close> below), so no
  ZeroDivisionError branch is needed. The quotient is the exact one here. In the
  source it is a quotient of IEEE doubles, which can round up to the next whole number
  (49959.36 / 9.96 gives 5016.0, the exact quotient is below 5016); what depends on that
  rounding is not a property of this model and is not claimed below.
\<close>

definition validate_buy_order :: "engine \<Rightarrow> order \<Rightarrow> prices \<Rightarrow> real \<Rightarrow> order option" where
  "validate_buy_order eng odr ps available_cash =
     (case ps (symbol odr) of
        None \<Rightarrow> None
      | Some px \<Rightarrow>
          (let ep = calculate_slippage (slippage_model eng) odr px;
               comm = calculate_commission (commission_model eng) odr ep;
               total_amount = of_int (quantity odr) * ep + comm
           in if available_cash < total_amount
              then (if available_cash \<le> comm then None
                    else (let max_shares = py_int ((available_cash - comm) / ep)
                          in if max_shares \<le> 0 then None
                             else Some (Order (symbol odr) max_shares (price odr)
                                          (order_type odr) (order_date odr))))
              else Some odr))"

text \<open>
  \<open>execute_orders\<close> (the second definition in the class, which replaces the first) has
  three loops. The first validates every sell order against the portfolio as it is
  before the batch and builds the sell trades:
\<close>

fun build_sell_trades :: "engine \<Rightarrow> date \<Rightarrow> prices \<Rightarrow> order list \<Rightarrow> trade list" where
  "build_sell_trades eng d ps [] = []"
| "build_sell_trades eng d ps (odr # rest) =
     (case validate_sell_order eng odr ps of
        None \<Rightarrow> build_sell_trades eng d ps rest
      | Some vo \<Rightarrow>
          (case ps (symbol odr) of
             None \<Rightarrow> build_sell_trades eng d ps rest
           | Some px \<Rightarrow>
               (let ep = calculate_slippage (slippage_model eng) vo px;
                    comm = calculate_commission (commission_model eng) vo ep;
                    amt = of_int (quantity vo) * ep - comm
                in Trade vo d ep comm amt # build_sell_trades eng d ps rest)))"

text \<open>
  The second applies the sell trades; a trade is logged and returned only when the
  portfolio reports success.
\<close>

fun execute_sell_trades :: "trade list \<Rightarrow> engine \<times> trade list \<Rightarrow> engine \<times> trade list" where
  "execute_sell_trades [] st = st"
| "execute_sell_trades (t # rest) (eng, executed) =
     (let r = update_from_trade t (portfolio eng);
          eng1 = eng\<lparr>portfolio := snd r\<rparr>
      in if fst (fst r)
         then execute_sell_trades rest
                (eng1\<lparr>trade_log := trade_log eng1 @ [t\<lparr>pnl := snd (fst r)\<rparr>]\<rparr>,
                 executed @ [t\<lparr>pnl := snd (fst r)\<rparr>])
         else execute_sell_trades rest (eng1, executed))"

text \<open>
  The third validates each buy order against the cash the portfolio holds at that
  moment, recomputes price, commission and amount for the validated order and applies
  the trade.
\<close>

fun execute_buy_orders :: "date \<Rightarrow> prices \<Rightarrow> order list \<Rightarrow> engine \<times> trade list \<Rightarrow> engine \<times> trade list" where
  "execute_buy_orders d ps [] st = st"
| "execute_buy_orders d ps (odr # rest) (eng, executed) =
     (case validate_buy_order eng odr ps (cash (portfolio eng)) of
        None \<Rightarrow> execute_buy_orders d ps rest (eng, executed)
      | Some vo \<Rightarrow>
          (case ps (symbol odr) of
             None \<Rightarrow> execute_buy_orders d ps rest (eng, executed)
           | Some px \<Rightarrow>
               (let ep = calculate_slippage (slippage_model eng) vo px;
                    comm = calculate_commission (commission_model eng) vo ep;
                    amt = of_int (quantity vo) * ep + comm;
                    t = Trade vo d ep comm amt;
                    r = update_from_trade t (portfolio eng);
                    eng1 = eng\<lparr>portfolio := snd r\<rparr>
                in if \<not> fst (fst r) then execute_buy_orders d ps rest (eng1, executed)
                   else execute_buy_orders d ps rest
                          (eng1\<lparr>trade_log := trade_log eng1 @ [t]\<rparr>, executed @ [t]))))"

definition execute_orders :: "engine \<Rightarrow> order list \<Rightarrow> date \<Rightarrow> prices \<Rightarrow> trade list \<times> engine" where
  "execute_orders eng orders d ps =
     (if orders = [] then ([], eng)
      else (let sell_orders = filter (\<lambda>odr. quantity odr < 0) orders;
                buy_orders = filter (\<lambda>odr. 0 < quantity odr) orders;
                sell_trades = build_sell_trades eng d ps sell_orders;
                st1 = execute_sell_trades sell_trades (eng, []);
                st2 = execute_buy_orders d ps buy_orders st1
            in (snd st2, fst st2)))"

section \<open>allocation\_v4.py: order planning\<close>

type_synonym targets = "(symbol \<times> real) list"

text \<open>
  \<open>fill_missing keys d\<close> is the loop \<open>for k in keys: if k not in d: d[k] = 0.0\<close>.
\<close>

definition fill_missing :: "symbol list \<Rightarrow> targets \<Rightarrow> targets" where
  "fill_missing keys al =
     fold (\<lambda>k acc. case map_of acc k of None \<Rightarrow> AList.update k 0 acc | Some v \<Rightarrow> acc) keys al"

text \<open>
  \<open>compare_positions\<close> divides by the portfolio value for every held position, so a
  zero portfolio value with a position held raises ZeroDivisionError. Its last loop runs
  over a Python set, whose iteration order is unspecified; the model enumerates the keys
  in dictionary order (current allocations first).
\<close>

definition compare_positions :: "(symbol \<times> position) list \<Rightarrow> targets \<Rightarrow> real \<Rightarrow> prices \<Rightarrow> error + targets" where
  "compare_positions current_positions target_allocations portfolio_value ps =
     (if current_positions \<noteq> [] \<and> portfolio_value = 0 then Inl ZeroDivisionError
      else
        (let held =
               fold (\<lambda>kv acc.
                       AList.update (fst kv)
                         (case ps (fst kv) of
                            Some px \<Rightarrow> of_int (quantity (snd kv)) * px / portfolio_value
                          | None \<Rightarrow> market_value (snd kv) / portfolio_value)
                         acc)
                    current_positions [];
             current_allocations = fill_missing (map fst target_allocations) held;
             target_filled = fill_missing (map fst current_allocations) target_allocations;
             keys = remdups (map fst current_allocations @ map fst target_filled)
         in Inr (fold (\<lambda>k acc.
                         (let current_weight = (case map_of current_allocations k of
                                                  Some w \<Rightarrow> w | None \<Rightarrow> 0);
                              target_weight = (case map_of target_filled k of
                                                 Some w \<Rightarrow> w | None \<Rightarrow> 0);
                              dollar_change = (target_weight - current_weight) * portfolio_value
                          in if 1 / 100 < \<bar>dollar_change\<bar>
                             then AList.update k dollar_change acc else acc))
                      keys [])))"

text \<open>
  \<open>generate_orders\<close>. The module-level commission and slippage rates are the first two
  arguments. An omitted \<open>available_cash\<close> counts as 0.0 and an omitted
  \<open>current_positions\<close> as the empty dictionary, so both are plain arguments here.
  Sell orders are built with \<open>Order(symbol, quantity, order_date)\<close>: the order date
  lands in the price argument and the order's own date falls back to today.
\<close>

fun sell_orders_loop ::
  "real \<Rightarrow> prices \<Rightarrow> date option \<Rightarrow> (symbol \<times> position) list \<Rightarrow> targets \<Rightarrow>
   order list \<times> real \<Rightarrow> error + order list \<times> real" where
  "sell_orders_loop comm_rate ps od current_positions [] acc = Inr acc"
| "sell_orders_loop comm_rate ps od current_positions ((sy, dollar_change) # rest) (orders, cash_freed) =
     (case ps sy of
        None \<Rightarrow> sell_orders_loop comm_rate ps od current_positions rest (orders, cash_freed)
      | Some px \<Rightarrow>
          if px = 0 then Inl ZeroDivisionError
          else
            (let target_quantity = dollar_change / px;
                 current_qty = (case map_of current_positions sy of
                                  Some pos \<Rightarrow> quantity pos | None \<Rightarrow> 0);
                 rounded = \<bar>py_round target_quantity\<bar>;
                 max_sellable = (if current_qty < rounded then current_qty else rounded)
             in if max_sellable \<le> 0
                then sell_orders_loop comm_rate ps od current_positions rest (orders, cash_freed)
                else
                  (let q = - max_sellable;
                       actual_dollars = \<bar>of_int q * px\<bar>;
                       comm = actual_dollars * comm_rate
                   in sell_orders_loop comm_rate ps od current_positions rest
                        (orders @
                           [Order sy q (case od of None \<Rightarrow> NoPrice | Some d \<Rightarrow> PriceDate d)
                              ''MARKET'' None],
                         cash_freed + (actual_dollars - comm)))))"

record estimate = shares +
  est_price :: real
  adjusted_price :: real
  cost :: real
  est_commission :: real
  total_cost :: real
  single_share_cost :: real
  dollar_change :: real

fun estimates_loop ::
  "real \<Rightarrow> real \<Rightarrow> prices \<Rightarrow> targets \<Rightarrow> (symbol \<times> estimate) list \<times> real \<Rightarrow>
   error + (symbol \<times> estimate) list \<times> real" where
  "estimates_loop comm_rate slip_rate ps [] acc = Inr acc"
| "estimates_loop comm_rate slip_rate ps ((sy, change) # rest) (estimates, total_estimated_cost) =
     (case ps sy of
        None \<Rightarrow> estimates_loop comm_rate slip_rate ps rest (estimates, total_estimated_cost)
      | Some px \<Rightarrow>
          if px = 0 then Inl ZeroDivisionError
          else
            (let adjusted = px * (1 + slip_rate);
                 q = py_round (change / px)
             in if q \<le> 0
                then estimates_loop comm_rate slip_rate ps rest (estimates, total_estimated_cost)
                else
                  (let c = of_int q * adjusted;
                       commission_cost = c * comm_rate;
                       tc = c + commission_cost
                   in estimates_loop comm_rate slip_rate ps rest
                        (AList.update sy
                           \<lparr>quantity = q, est_price = px, adjusted_price = adjusted, cost = c,
                            est_commission = commission_cost, total_cost = tc,
                            single_share_cost = adjusted * (1 + comm_rate),
                            dollar_change = change\<rparr>
                           estimates,
                         total_estimated_cost + tc))))"

record adjusted = shares +
  adj_cost :: real
  adj_commission :: real
  total :: real
  original :: int

text \<open>First pass of the scaling branch: proportional allocation in priority order.\<close>

fun first_pass ::
  "real \<Rightarrow> real \<Rightarrow> (symbol \<times> estimate) list \<Rightarrow> (symbol \<times> adjusted) list \<times> real \<Rightarrow>
   (symbol \<times> adjusted) list \<times> real" where
  "first_pass comm_rate scaling_factor [] acc = acc"
| "first_pass comm_rate scaling_factor ((sy, est) # rest) (adjusted_orders, remaining_cash) =
     (let scaled = py_int (of_int (quantity est) * scaling_factor);
          scaled_quantity =
            (if scaled < 1 \<and> single_share_cost est \<le> remaining_cash then 1 else scaled)
      in if 0 < scaled_quantity
         then (let adjusted_cost = of_int scaled_quantity * adjusted_price est;
                   adjusted_commission = adjusted_cost * comm_rate;
                   adjusted_total = adjusted_cost + adjusted_commission
               in if adjusted_total \<le> remaining_cash
                  then first_pass comm_rate scaling_factor rest
                         (AList.update sy
                            \<lparr>quantity = scaled_quantity, adj_cost = adjusted_cost,
                             adj_commission = adjusted_commission, total = adjusted_total,
                             original = quantity est\<rparr>
                            adjusted_orders,
                          remaining_cash - adjusted_total)
                  else first_pass comm_rate scaling_factor rest (adjusted_orders, remaining_cash))
         else first_pass comm_rate scaling_factor rest (adjusted_orders, remaining_cash))"

text \<open>
  Second pass: top-up with the remaining cash, in the same priority order. The division
  by the single-share cost raises when that cost is zero.
\<close>

fun second_pass ::
  "real \<Rightarrow> (symbol \<times> estimate) list \<Rightarrow> (symbol \<times> adjusted) list \<times> real \<Rightarrow>
   error + (symbol \<times> adjusted) list \<times> real" where
  "second_pass comm_rate [] acc = Inr acc"
| "second_pass comm_rate ((sy, est) # rest) (adjusted_orders, remaining_cash) =
     (case map_of adjusted_orders sy of
        None \<Rightarrow> second_pass comm_rate rest (adjusted_orders, remaining_cash)
      | Some adj \<Rightarrow>
          if single_share_cost est \<le> remaining_cash
          then (if single_share_cost est = 0 then Inl ZeroDivisionError
                else
                  (let affordable = py_int (remaining_cash / single_share_cost est)
                   in if 0 < affordable
                      then (let max_additional = quantity est - quantity adj;
                                additional_shares = min affordable max_additional
                            in if 0 < additional_shares
                               then (let additional_cost =
                                           of_int additional_shares * adjusted_price est;
                                         additional_commission = additional_cost * comm_rate;
                                         additional_total = additional_cost + additional_commission
                                     in second_pass comm_rate rest
                                          (AList.update sy
                                             (adj\<lparr>quantity := quantity adj + additional_shares,
                                                  adj_cost := adj_cost adj + additional_cost,
                                                  adj_commission :=
                                                    adj_commission adj + additional_commission,
                                                  total := total adj + additional_total\<rparr>)
                                             adjusted_orders,
                                           remaining_cash - additional_total))
                               else second_pass comm_rate rest (adjusted_orders, remaining_cash))
                      else second_pass comm_rate rest (adjusted_orders, remaining_cash)))
          else second_pass comm_rate rest (adjusted_orders, remaining_cash))"

definition buy_order :: "prices \<Rightarrow> date option \<Rightarrow> symbol \<Rightarrow> int \<Rightarrow> order" where
  "buy_order ps od sy q =
     Order sy q (case ps sy of Some px \<Rightarrow> PriceNum px | None \<Rightarrow> NoPrice) ''MARKET'' od"

definition generate_orders ::
  "real \<Rightarrow> real \<Rightarrow> targets \<Rightarrow> prices \<Rightarrow> date option \<Rightarrow> real \<Rightarrow> (symbol \<times> position) list \<Rightarrow>
   error + order list" where
  "generate_orders comm_rate slip_rate dollar_changes ps od available_cash current_positions =
     (let cash_buffer_factor = 999 / 1000;
          buy_changes = filter (\<lambda>kv. ps (fst kv) \<noteq> None \<and> 0 < snd kv) dollar_changes;
          sell_changes =
            filter (\<lambda>kv. ps (fst kv) \<noteq> None \<and> \<not> 0 < snd kv \<and> snd kv < 0 \<and>
                          (case map_of current_positions (fst kv) of
                             Some pos \<Rightarrow> 0 < quantity pos | None \<Rightarrow> False))
                   dollar_changes
      in case sell_orders_loop comm_rate ps od current_positions sell_changes ([], 0) of
           Inl e \<Rightarrow> Inl e
         | Inr (orders, cash_freed) \<Rightarrow>
             (let total_available_cash = available_cash + cash_freed
              in if total_available_cash \<le> 0 \<or> buy_changes = [] then Inr orders
                 else
                   (case estimates_loop comm_rate slip_rate ps buy_changes ([], 0) of
                      Inl e \<Rightarrow> Inl e
                    | Inr (buy_order_estimates, total_estimated_cost) \<Rightarrow>
                        if total_available_cash * cash_buffer_factor < total_estimated_cost \<and>
                           buy_order_estimates \<noteq> []
                        then
                          (let buffered_cash = total_available_cash * cash_buffer_factor;
                               scaling_factor = buffered_cash / total_estimated_cost;
                               prioritized_orders =
                                 sort_key (\<lambda>kv. - dollar_change (snd kv)) buy_order_estimates;
                               p1 = first_pass comm_rate scaling_factor prioritized_orders
                                      ([], buffered_cash)
                           in case (if 0 < snd p1
                                    then second_pass comm_rate prioritized_orders p1
                                    else Inr p1) of
                                Inl e \<Rightarrow> Inl e
                              | Inr (adjusted_orders, remaining_cash) \<Rightarrow>
                                  Inr (orders @
                                       map (\<lambda>kv. buy_order ps od (fst kv) (quantity (snd kv)))
                                         (filter (\<lambda>kv. 0 < quantity (snd kv)) adjusted_orders)))
                        else
                          Inr (orders @
                               map (\<lambda>kv. buy_order ps od (fst kv) (quantity (snd kv)))
                                 buy_order_estimates))))"

definition calculate_rebalance_orders ::
  "real \<Rightarrow> real \<Rightarrow> portfolio \<Rightarrow> targets \<Rightarrow> prices \<Rightarrow> date option \<Rightarrow> error + order list" where
  "calculate_rebalance_orders comm_rate slip_rate pf target_allocations ps od =
     (let current_positions = positions pf;
          portfolio_value = get_total_value pf (Some ps)
      in case compare_positions current_positions target_allocations portfolio_value ps of
           Inl e \<Rightarrow> Inl e
         | Inr dollar_changes \<Rightarrow>
             generate_orders comm_rate slip_rate dollar_changes ps od (cash pf) current_positions)"

section \<open>backtest\_v4.py: the date loop of run\_backtest\<close>

text \<open>
  The settings the modules read at import time. The allocation module takes its rates
  from the backtest section; the execution module prefers the strategy section and falls
  back to the backtest section.
\<close>

record settings =
  capital :: real
  commission_rate :: real
  slippage_rate :: real
  strategy_commission_rate :: "real option"
  strategy_slippage_rate :: "real option"
  execution_delay :: int

text \<open>
  The state of the loop: the engine with its portfolio and trade log, the pending-order
  dictionary, the last rebalance date, and the local variable \<open>signals\<close>, which is
  unbound (\<open>None\<close>) until the first rebalance date assigns it. The report tables
  (signal, weights and portfolio history frames) are written but never read by the
  loop and are left out.
\<close>

record backtest =
  execution_engine :: engine
  pending_orders :: "date \<rightharpoonup> order list"
  last_rebalance_date :: "date option"
  signals :: "targets option"

definition BacktestEngine :: "settings \<Rightarrow> backtest" where
  "BacktestEngine cfg =
     \<lparr>execution_engine =
        ExecutionEngine (capital cfg)
          (case strategy_commission_rate cfg of Some r \<Rightarrow> r | None \<Rightarrow> commission_rate cfg)
          (case strategy_slippage_rate cfg of Some r \<Rightarrow> r | None \<Rightarrow> slippage_rate cfg),
      pending_orders = Map.empty, last_rebalance_date = None, signals = None\<rparr>"

definition should_rebalance :: "date \<Rightarrow> date list \<Rightarrow> bool" where
  "should_rebalance d rebalance_dates = (d \<in> set rebalance_dates)"

text \<open>
  One iteration of \<open>for current_date in price_data.index\<close>. The price table is the list
  of its rows, \<open>signals_dict\<close> maps a date to its target weights. Only the lookup of
  the signals is inside \<open>if should_rebalance\<close>; the order generation that follows is at
  the indentation of the loop body, so it runs on every date with whatever \<open>signals\<close>
  holds, and raises NameError while \<open>signals\<close> is unbound.
\<close>

definition run_date ::
  "settings \<Rightarrow> (date \<times> prices) list \<Rightarrow> (date \<rightharpoonup> targets) \<Rightarrow> date list \<Rightarrow>
   backtest \<Rightarrow> date \<times> prices \<Rightarrow> error + backtest" where
  "run_date cfg price_data signals_dict rebalance_dates st row =
     (let d = fst row;
          current_prices = snd row;
          st1 = (case pending_orders st d of
                   Some pending \<Rightarrow>
                     st\<lparr>pending_orders := (pending_orders st)(d := None),
                        execution_engine :=
                          snd (execute_orders (execution_engine st) pending d current_prices)\<rparr>
                 | None \<Rightarrow> st);
          eng1 = execution_engine st1;
          st2 = st1\<lparr>execution_engine :=
                      eng1\<lparr>portfolio := mark_to_market d current_prices (portfolio eng1)\<rparr>\<rparr>;
          st3 = (if should_rebalance d rebalance_dates
                 then st2\<lparr>signals :=
                            Some (case signals_dict d of Some sg \<Rightarrow> sg | None \<Rightarrow> [])\<rparr>
                 else st2)
      in case signals st3 of
           None \<Rightarrow> Inl NameError
         | Some sg \<Rightarrow>
             if sg = [] then Inr st3
             else
               (case calculate_rebalance_orders (commission_rate cfg) (slippage_rate cfg)
                       (portfolio (execution_engine st3)) sg current_prices (Some d) of
                  Inl e \<Rightarrow> Inl e
                | Inr orders \<Rightarrow>
                    (let st4 =
                           (if 0 < execution_delay cfg
                            then (let ed = d + execution_delay cfg
                                  in case map_of price_data ed of
                                       Some execution_prices \<Rightarrow>
                                         st3\<lparr>execution_engine :=
                                               snd (execute_orders (execution_engine st3) orders
                                                      ed execution_prices)\<rparr>
                                     | None \<Rightarrow> st3)
                            else st3\<lparr>execution_engine :=
                                       snd (execute_orders (execution_engine st3) orders d
                                              current_prices)\<rparr>)
                     in Inr (st4\<lparr>last_rebalance_date := Some d\<rparr>))))"

fun run_dates ::
  "settings \<Rightarrow> (date \<times> prices) list \<Rightarrow> (date \<rightharpoonup> targets) \<Rightarrow> date list \<Rightarrow>
   backtest \<Rightarrow> (date \<times> prices) list \<Rightarrow> error + backtest" where
  "run_dates cfg price_data signals_dict rebalance_dates st [] = Inr st"
| "run_dates cfg price_data signals_dict rebalance_dates st (row # rest) =
     (case run_date cfg price_data signals_dict rebalance_dates st row of
        Inl e \<Rightarrow> Inl e
      | Inr st1 \<Rightarrow> run_dates cfg price_data signals_dict rebalance_dates st1 rest)"

definition run_backtest ::
  "settings \<Rightarrow> (date \<times> prices) list \<Rightarrow> (date \<rightharpoonup> targets) \<Rightarrow> date list \<Rightarrow> error + backtest" where
  "run_backtest cfg price_data signals_dict rebalance_dates =
     run_dates cfg price_data signals_dict rebalance_dates (BacktestEngine cfg) price_data"

section \<open>backtest\_v4.py: the date loop of run\_backtest\_with\_signals\<close>

text \<open>
  The second driver. \<open>_initialize_components\<close> gives the execution engine a fresh
  portfolio and trade log; the loop works on that same portfolio object and keeps a
  trade log of its own. Dates without a row of signals are skipped. An exception of the
  planner ends the iteration (\<open>except ... continue\<close>) after the mark to market.
\<close>

record signals_run =
  run_engine :: engine
  run_trade_log :: "trade list"

definition initialize_components :: "settings \<Rightarrow> signals_run" where
  "initialize_components cfg =
     \<lparr>run_engine =
        (execution_engine (BacktestEngine cfg))
          \<lparr>portfolio := Portfolio (capital cfg), trade_log := []\<rparr>,
      run_trade_log = []\<rparr>"

text \<open>
  The iteration up to the return of \<open>execute_orders\<close>: the engine after the mark to
  market, and, where orders were planned, what \<open>execute_orders\<close> returned with the
  engine as it is at that moment.
\<close>

definition plan_and_execute ::
  "settings \<Rightarrow> engine \<Rightarrow> targets \<Rightarrow> date \<Rightarrow> prices \<Rightarrow> engine \<times> (trade list \<times> engine) option" where
  "plan_and_execute cfg eng current_signals d ps =
     (let eng1 = eng\<lparr>portfolio := mark_to_market d ps (portfolio eng)\<rparr>
      in case calculate_rebalance_orders (commission_rate cfg) (slippage_rate cfg)
                (portfolio eng1) current_signals ps (Some d) of
           Inl e \<Rightarrow> (eng1, None)
         | Inr orders \<Rightarrow>
             if orders = [] then (eng1, None)
             else (eng1, Some (execute_orders eng1 orders d ps)))"

text \<open>
  The loop over the returned trades: each is added to the loop's trade log and applied
  to the portfolio with \<open>update_from_trade\<close>, a second time after \<open>execute_orders\<close>
  already applied it.
\<close>

fun reapply_trades :: "trade list \<Rightarrow> signals_run \<Rightarrow> signals_run" where
  "reapply_trades [] st = st"
| "reapply_trades (t # rest) st =
     reapply_trades rest
       (st\<lparr>run_trade_log := run_trade_log st @ [t],
           run_engine :=
             (run_engine st)
               \<lparr>portfolio := snd (update_from_trade t (portfolio (run_engine st)))\<rparr>\<rparr>)"

definition run_signals_date ::
  "settings \<Rightarrow> (date \<rightharpoonup> targets) \<Rightarrow> signals_run \<Rightarrow> date \<times> prices \<Rightarrow> signals_run" where
  "run_signals_date cfg signal_rows st row =
     (case signal_rows (fst row) of
        None \<Rightarrow> st
      | Some current_signals \<Rightarrow>
          (let r = plan_and_execute cfg (run_engine st) current_signals (fst row) (snd row)
           in case snd r of
                None \<Rightarrow> st\<lparr>run_engine := fst r\<rparr>
              | Some res \<Rightarrow>
                  (let st1 = reapply_trades (fst res) (st\<lparr>run_engine := snd res\<rparr>);
                       eng3 = run_engine st1
                   in st1\<lparr>run_engine :=
                            eng3\<lparr>portfolio :=
                                   mark_to_market (fst row) (snd row) (portfolio eng3)\<rparr>\<rparr>)))"

definition run_backtest_with_signals ::
  "settings \<Rightarrow> (date \<rightharpoonup> targets) \<Rightarrow> (date \<times> prices) list \<Rightarrow> signals_run" where
  "run_backtest_with_signals cfg signal_rows price_data =
     fold (\<lambda>row st. run_signals_date cfg signal_rows st row) price_data
       (initialize_components cfg)"

section \<open>Auxiliary notions of the proofs\<close>


text \<open>
  A sell trade carries the realized profit of a portfolio \<open>pf0\<close> when its \<open>pnl\<close> is the
  sold quantity times the difference of execution price and the cost basis the symbol has
  in \<open>pf0\<close>. A portfolio is \<open>same_or_less\<close> than \<open>pf0\<close> when each of its positions is
  a position of \<open>pf0\<close> with the same cost basis and at most its quantity: what a run of
  sells leaves of \<open>pf0\<close>.
\<close>

definition pnl_ok :: "portfolio \<Rightarrow> trade \<Rightarrow> bool" where
  "pnl_ok pf0 t \<longleftrightarrow>
     (\<exists>pos. map_of (positions pf0) (symbol t) = Some pos \<and> \<bar>quantity t\<bar> \<le> quantity pos \<and>
        pnl t = of_int \<bar>quantity t\<bar> * (execution_price t - cost_basis pos) \<and>
        amount t = of_int (quantity t) * execution_price t - commission t)"

definition same_or_less :: "portfolio \<Rightarrow> portfolio \<Rightarrow> bool" where
  "same_or_less pf0 pf \<longleftrightarrow>
     (\<forall>sy p'. map_of (positions pf) sy = Some p' \<longrightarrow>
        (\<exists>p. map_of (positions pf0) sy = Some p \<and> cost_basis p' = cost_basis p \<and>
             quantity p' \<le> quantity p))"

section \<open>Properties of the portfolio\<close>

text \<open>
  C9. A buy trade (positive quantity) applied to a portfolio: where the symbol already
  has a position, the new quantity is the sum of the old and the bought quantity, and the
  new cost basis is the weighted average
  \<open>(old_qty * old_cost + buy_qty * price) / (old_qty + buy_qty)\<close>; where it has none, a
  position with the bought quantity and the trade price as cost basis is created. The
  sum of the quantities must not be zero, as it never is for the non-negative held
  quantities of the data model (a zero sum deletes the position).
\<close>

theorem buy_weighted_average_cost:
  assumes "0 < quantity t"
  shows "(case map_of (positions pf) (symbol t) of
            Some pos \<Rightarrow>
              quantity pos + quantity t \<noteq> 0 \<longrightarrow>
              map_of (positions (snd (update_from_trade t pf))) (symbol t) =
                Some (pos\<lparr>quantity := quantity pos + quantity t,
                          cost_basis :=
                            (of_int (quantity pos) * cost_basis pos +
                             of_int (quantity t) * execution_price t) /
                            of_int (quantity pos + quantity t),
                          market_value := of_int (quantity pos + quantity t) * execution_price t\<rparr>)
          | None \<Rightarrow>
              map_of (positions (snd (update_from_trade t pf))) (symbol t) =
                Some \<lparr>quantity = quantity t, cost_basis = execution_price t,
                      market_value = of_int (quantity t) * execution_price t\<rparr>)"
  using assms
  by (simp add: update_from_trade_def add_position_def Let_def update_conv' mult.commute
           split: option.splits)

theorem buy_weighted_average_cost_witness:
  "0 < quantity (Trade (Order ''A'' 10 NoPrice ''MARKET'' None) 1 20 0 200) \<and>
   map_of (positions (snd (update_from_trade
       (Trade (Order ''A'' 10 NoPrice ''MARKET'' None) 1 20 0 200)
       \<lparr>cash = 1000,
        positions = [(''A'', \<lparr>quantity = 10, cost_basis = 10, market_value = 100\<rparr>)],
        initial_capital = 1000, history = Map.empty, current_date = None\<rparr>))) ''A'' =
     Some \<lparr>quantity = 20, cost_basis = 15, market_value = 400\<rparr>"
proof -
  let ?t = "Trade (Order ''A'' 10 NoPrice ''MARKET'' None) 1 20 0 200"
  let ?pf = "\<lparr>cash = 1000,
        positions = [(''A'', \<lparr>quantity = 10, cost_basis = 10, market_value = 100\<rparr>)],
        initial_capital = 1000, history = Map.empty, current_date = None\<rparr>"
  have q: "0 < quantity ?t" by (simp add: Trade_def Order_def)
  have s: "symbol ?t = ''A''" by (simp add: Trade_def Order_def)
  have p: "execution_price ?t = 20" "quantity ?t = 10" by (simp_all add: Trade_def Order_def)
  from buy_weighted_average_cost [OF q, of ?pf] show ?thesis
    unfolding s p by simp
qed

text \<open>
  C10. A sell trade whose position update fails (no position for the symbol, or fewer
  shares held than sold) returns \<open>(False, 0)\<close> and leaves the positions as they were,
  but the cash has already been changed by minus the trade's amount and stays changed.
\<close>

theorem rejected_sell_keeps_cash_change:
  assumes "quantity t < 0"
    and "map_of (positions pf) (symbol t) = None \<or>
         (\<exists>pos. map_of (positions pf) (symbol t) = Some pos \<and> quantity pos < \<bar>quantity t\<bar>)"
  shows "update_from_trade t pf =
           ((False, 0), pf\<lparr>cash := cash pf - amount t, current_date := Some (execution_date t)\<rparr>)"
  using assms
  by (auto simp add: update_from_trade_def remove_position_def Let_def split: option.splits)

theorem rejected_sell_keeps_cash_change_witness:
  "update_from_trade (Trade (Order ''A'' (- 5) NoPrice ''MARKET'' None) 1 100 0 (- 500))
      (Portfolio 1000) =
     ((False, 0), (Portfolio 1000)\<lparr>cash := 1500, current_date := Some 1\<rparr>)"
  using rejected_sell_keeps_cash_change
    [of "Trade (Order ''A'' (- 5) NoPrice ''MARKET'' None) 1 100 0 (- 500)" "Portfolio 1000"]
  by (simp add: Trade_def Order_def Portfolio_def)

subsection \<open>Mark to market\<close>









section \<open>Properties of the order planner\<close>

lemma scenario_a_evaluation:
  "calculate_rebalance_orders 0 0 (Portfolio 100000) [(''A'', 1)] [''A'' \<mapsto> 100] None =
     Inr [Order ''A'' 999 (PriceNum 100) ''MARKET'' None]"
  by code_simp

text \<open>
  C4 (as amended). Scenario A: capital 100000, one symbol A at price 100, target weight 1,
  no commission, no slippage, no positions. The raw quantity 1000 costs 100000, more than
  the buffered cash 99900, so the scaling branch runs: 999 shares are accepted, they use
  up the whole buffered cash, nothing remains for the top-up pass, and the planner returns
  one buy order for 999 shares of A.
\<close>

theorem scenario_a_orders:
  "calculate_rebalance_orders 0 0 (Portfolio 100000) [(''A'', 1)] [''A'' \<mapsto> 100] od =
     Inr [Order ''A'' 999 (PriceNum 100) ''MARKET'' od]"
  by code_simp

text \<open>
  C4 (counterexample). The planner does not return a single buy order of 1000 shares of A
  in scenario A.
\<close>

theorem scenario_a_not_1000:
  "\<not> (\<exists>odr. calculate_rebalance_orders 0 0 (Portfolio 100000) [(''A'', 1)] [''A'' \<mapsto> 100] None
                = Inr [odr] \<and> symbol odr = ''A'' \<and> quantity odr = 1000)"
  by (simp add: scenario_a_evaluation Order_def)

section \<open>Properties of the execution engine\<close>

subsection \<open>Python's int on quotients\<close>

lemma py_int_floor: "0 \<le> x \<Longrightarrow> py_int x = \<lfloor>x\<rfloor>"
  by (simp add: py_int_def)



subsection \<open>Validated orders\<close>

lemma validate_buy_order_divisor:
  assumes "ep = calculate_slippage (slippage_model eng) odr px"
    and "comm = calculate_commission (commission_model eng) odr ep"
    and "c < of_int (quantity odr) * ep + comm" and "\<not> c \<le> comm"
  shows "ep \<noteq> 0"
  using assms by (auto simp add: calculate_commission_def)


lemma validate_sell_order_quantity:
  assumes "validate_sell_order eng odr ps = Some vo" and "quantity odr < 0"
  shows "quantity vo < 0 \<and> symbol vo = symbol odr"
  using assms
  by (auto simp add: validate_sell_order_def Let_def Order_def
           split: option.splits if_splits)

lemma validate_buy_order_quantity:
  assumes "validate_buy_order eng odr ps c = Some vo" and "0 < quantity odr"
  shows "0 < quantity vo"
  using assms
  by (auto simp add: validate_buy_order_def Let_def Order_def split: option.splits if_splits)

subsection \<open>Sells\<close>

text \<open>
  C5 (evaluation of a failing input). The engine holds 10 shares of A and no cash, and
  receives two sell orders of 15 shares of A in one batch. Both are validated against
  the 10 shares held before the batch and clipped to 10. The first trade is executed;
  the second is applied when nothing is held any more: it yields no trade, and yet the
  cash is credited a second time (2000 instead of 1000).
\<close>

theorem duplicate_sells_credit_cash_without_trade:
  "(let eng1 = snd (execute_orders (ExecutionEngine 1000 0 0)
                      [Order ''A'' 10 NoPrice ''MARKET'' None] 0 [''A'' \<mapsto> 100]);
        r = execute_orders eng1
              [Order ''A'' (- 15) NoPrice ''MARKET'' None,
               Order ''A'' (- 15) NoPrice ''MARKET'' None] 1 [''A'' \<mapsto> 100]
    in map (\<lambda>kv. quantity (snd kv)) (positions (portfolio eng1)) = [10] \<and> cash (portfolio eng1) = 0 \<and>
       map quantity (fst r) = [- 10] \<and>
       positions (portfolio (snd r)) = [] \<and> cash (portfolio (snd r)) = 2000)"
  by code_simp

lemma build_sell_trades_shape:
  assumes "\<forall>odr \<in> set os. quantity odr < 0"
  shows "\<forall>t \<in> set (build_sell_trades eng d ps os).
           quantity t < 0 \<and> amount t = of_int (quantity t) * execution_price t - commission t"
  using assms
proof (induction os)
  case Nil
  then show ?case by simp
next
  case (Cons odr os)
  then have rest: "\<forall>t \<in> set (build_sell_trades eng d ps os).
           quantity t < 0 \<and> amount t = of_int (quantity t) * execution_price t - commission t"
    and q: "quantity odr < 0"
    by simp_all
  show ?case
  proof (cases "validate_sell_order eng odr ps")
    case None
    with rest show ?thesis by simp
  next
    case (Some vo)
    with q have "quantity vo < 0" by (simp add: validate_sell_order_quantity)
    with Some rest show ?thesis
      by (cases "ps (symbol odr)") (simp_all add: Let_def Trade_def)
  qed
qed

lemma sell_success:
  assumes "\<not> 0 < quantity t" and "fst (fst (update_from_trade t pf))"
  shows "\<exists>pos. map_of (positions pf) (symbol t) = Some pos \<and> \<bar>quantity t\<bar> \<le> quantity pos \<and>
           snd (fst (update_from_trade t pf)) =
             of_int \<bar>quantity t\<bar> * (execution_price t - cost_basis pos)"
  using assms
  by (auto simp add: update_from_trade_def remove_position_def Let_def mult.commute
           split: option.splits if_splits)

lemma sell_keeps_cost_basis:
  assumes "\<not> 0 < quantity t"
    and "map_of (positions (snd (update_from_trade t pf))) sy = Some p'"
  shows "\<exists>p. map_of (positions pf) sy = Some p \<and> cost_basis p' = cost_basis p \<and>
             quantity p' \<le> quantity p"
  using assms
  by (auto simp add: update_from_trade_def remove_position_def Let_def update_conv' delete_conv'
           split: option.splits if_splits)

lemma same_or_less_refl: "same_or_less pf pf"
  by (simp add: same_or_less_def)

lemma same_or_less_sell:
  assumes "same_or_less pf0 pf" and "\<not> 0 < quantity t"
  shows "same_or_less pf0 (snd (update_from_trade t pf))"
  unfolding same_or_less_def
proof (intro allI impI)
  fix sy p'
  assume "map_of (positions (snd (update_from_trade t pf))) sy = Some p'"
  from sell_keeps_cost_basis [OF assms(2) this]
  obtain p1 where "map_of (positions pf) sy = Some p1" "cost_basis p' = cost_basis p1"
    "quantity p' \<le> quantity p1" by blast
  with assms(1) show "\<exists>p. map_of (positions pf0) sy = Some p \<and> cost_basis p' = cost_basis p \<and>
             quantity p' \<le> quantity p"
    unfolding same_or_less_def by fastforce
qed

lemma execute_sell_trades_pnl:
  assumes "\<forall>t \<in> set ts. quantity t < 0 \<and>
             amount t = of_int (quantity t) * execution_price t - commission t"
    and "same_or_less pf0 (portfolio eng)"
    and "\<forall>t \<in> set ex. quantity t < 0 \<longrightarrow> pnl_ok pf0 t"
  shows "\<forall>t \<in> set (snd (execute_sell_trades ts (eng, ex))). quantity t < 0 \<longrightarrow> pnl_ok pf0 t"
  using assms
proof (induction ts arbitrary: eng ex)
  case Nil
  then show ?case by simp
next
  case (Cons t ts)
  let ?r = "update_from_trade t (portfolio eng)"
  from Cons.prems(1) have rest: "\<forall>t \<in> set ts. quantity t < 0 \<and>
             amount t = of_int (quantity t) * execution_price t - commission t"
    and q: "\<not> 0 < quantity t"
    and am: "amount t = of_int (quantity t) * execution_price t - commission t"
    by simp_all
  have w: "same_or_less pf0 (snd ?r)" using Cons.prems(2) q by (rule same_or_less_sell)
  show ?case
  proof (cases "fst (fst ?r)")
    case True
    let ?t = "t\<lparr>pnl := snd (fst ?r)\<rparr>"
    from sell_success [OF q True] obtain p1 where
      p1: "map_of (positions (portfolio eng)) (symbol t) = Some p1" "\<bar>quantity t\<bar> \<le> quantity p1"
        "snd (fst ?r) = of_int \<bar>quantity t\<bar> * (execution_price t - cost_basis p1)"
      by blast
    from Cons.prems(2) p1(1) obtain p0 where
      p0: "map_of (positions pf0) (symbol t) = Some p0" "cost_basis p1 = cost_basis p0"
        "quantity p1 \<le> quantity p0"
      unfolding same_or_less_def by blast
    have "pnl_ok pf0 ?t"
      unfolding pnl_ok_def using p0 p1 am by auto
    with Cons.prems(3) have ex': "\<forall>t \<in> set (ex @ [?t]). quantity t < 0 \<longrightarrow> pnl_ok pf0 t"
      by simp
    from Cons.IH [OF rest, of "eng\<lparr>portfolio := snd ?r, trade_log := trade_log eng @ [?t]\<rparr>"
        "ex @ [?t]"] w ex' True
    show ?thesis by (simp add: Let_def)
  next
    case False
    from Cons.IH [OF rest, of "eng\<lparr>portfolio := snd ?r\<rparr>" ex] w Cons.prems(3) False
    show ?thesis by (simp add: Let_def)
  qed
qed

lemma execute_buy_orders_quantity:
  assumes "\<forall>odr \<in> set os. 0 < quantity odr"
  shows "\<forall>t \<in> set (snd (execute_buy_orders d ps os (eng, ex))). t \<in> set ex \<or> 0 < quantity t"
  using assms
proof (induction os arbitrary: eng ex)
  case Nil
  then show ?case by simp
next
  case (Cons odr os)
  then have rest: "\<forall>odr \<in> set os. 0 < quantity odr" and buy: "0 < quantity odr" by simp_all
  note IH = Cons.IH [OF rest]
  show ?case
  proof (cases "validate_buy_order eng odr ps (cash (portfolio eng))")
    case None
    with IH [of eng ex] show ?thesis by simp
  next
    case (Some vo)
    with buy have q: "0 < quantity vo" by (simp add: validate_buy_order_quantity)
    show ?thesis
    proof (cases "ps (symbol odr)")
      case None
      with Some IH [of eng ex] show ?thesis by simp
    next
      case (Some px)
      define t where "t = Trade vo d (calculate_slippage (slippage_model eng) vo px)
          (calculate_commission (commission_model eng) vo
             (calculate_slippage (slippage_model eng) vo px))
          (of_int (quantity vo) * calculate_slippage (slippage_model eng) vo px +
           calculate_commission (commission_model eng) vo
             (calculate_slippage (slippage_model eng) vo px))"
      have qt: "0 < quantity t" using q by (simp add: t_def Trade_def)
      let ?pf = "snd (update_from_trade t (portfolio eng))"
      have step: "execute_buy_orders d ps (odr # os) (eng, ex) =
          (if \<not> fst (fst (update_from_trade t (portfolio eng)))
           then execute_buy_orders d ps os (eng\<lparr>portfolio := ?pf\<rparr>, ex)
           else execute_buy_orders d ps os
                  (eng\<lparr>portfolio := ?pf, trade_log := trade_log eng @ [t]\<rparr>, ex @ [t]))"
        using \<open>validate_buy_order eng odr ps (cash (portfolio eng)) = Some vo\<close> Some
        by (simp add: Let_def t_def [symmetric])
      from IH [of "eng\<lparr>portfolio := ?pf\<rparr>" ex]
        IH [of "eng\<lparr>portfolio := ?pf, trade_log := trade_log eng @ [t]\<rparr>" "ex @ [t]"] qt
      show ?thesis unfolding step by auto
    qed
  qed
qed

text \<open>
  C7. Every sell trade that \<open>execute_orders\<close> returns sells at most the quantity the
  symbol's position held, and its \<open>pnl\<close> is the sold quantity times (execution price
  minus the cost basis of that position); the commission is not subtracted from it and
  enters only the amount, the cash effect of the trade. Sells leave the cost basis of
  a position as it is, so the cost basis is the one the position has before the batch.
  In particular 50 shares bought at 10 and sold at 12, without commission and slippage,
  realize 100.
\<close>

theorem sell_trade_realized_pnl:
  "(\<forall>t \<in> set (fst (execute_orders eng orders d ps)).
      quantity t < 0 \<longrightarrow>
      (\<exists>pos. map_of (positions (portfolio eng)) (symbol t) = Some pos \<and>
             \<bar>quantity t\<bar> \<le> quantity pos \<and>
             pnl t = of_int \<bar>quantity t\<bar> * (execution_price t - cost_basis pos) \<and>
             amount t = of_int (quantity t) * execution_price t - commission t)) \<and>
   map (\<lambda>t. (symbol t, quantity t, execution_price t, pnl t))
     (fst (execute_orders
             (snd (execute_orders (ExecutionEngine 500 0 0)
                     [Order ''B'' 50 NoPrice ''MARKET'' None] 0 [''B'' \<mapsto> 10]))
             [Order ''B'' (- 50) NoPrice ''MARKET'' None] 1 [''B'' \<mapsto> 12])) =
     [(''B'', - 50, 12, 100)]"
proof (rule conjI)
  show "\<forall>t \<in> set (fst (execute_orders eng orders d ps)).
      quantity t < 0 \<longrightarrow>
      (\<exists>pos. map_of (positions (portfolio eng)) (symbol t) = Some pos \<and>
             \<bar>quantity t\<bar> \<le> quantity pos \<and>
             pnl t = of_int \<bar>quantity t\<bar> * (execution_price t - cost_basis pos) \<and>
             amount t = of_int (quantity t) * execution_price t - commission t)"
  proof (cases "orders = []")
    case True
    then show ?thesis by (simp add: execute_orders_def)
  next
    case False
    define sells where
      "sells = build_sell_trades eng d ps (filter (\<lambda>odr. quantity odr < 0) orders)"
    define st1 where "st1 = execute_sell_trades sells (eng, [])"
    have "\<forall>t \<in> set sells. quantity t < 0 \<and>
            amount t = of_int (quantity t) * execution_price t - commission t"
      unfolding sells_def by (rule build_sell_trades_shape) simp
    from execute_sell_trades_pnl [OF this same_or_less_refl, of "[]"]
    have s: "\<forall>t \<in> set (snd st1). quantity t < 0 \<longrightarrow> pnl_ok (portfolio eng) t"
      by (simp add: st1_def)
    have b: "\<forall>t \<in> set (snd (execute_buy_orders d ps (filter (\<lambda>odr. 0 < quantity odr) orders)
                 (fst st1, snd st1))). t \<in> set (snd st1) \<or> 0 < quantity t"
      by (rule execute_buy_orders_quantity) simp
    have res: "fst (execute_orders eng orders d ps) =
        snd (execute_buy_orders d ps (filter (\<lambda>odr. 0 < quantity odr) orders) (fst st1, snd st1))"
      using False by (simp add: execute_orders_def Let_def sells_def st1_def)
    show ?thesis
      unfolding res using s b by (fastforce simp add: pnl_ok_def)
  qed
next
  show "map (\<lambda>t. (symbol t, quantity t, execution_price t, pnl t))
     (fst (execute_orders
             (snd (execute_orders (ExecutionEngine 500 0 0)
                     [Order ''B'' 50 NoPrice ''MARKET'' None] 0 [''B'' \<mapsto> 10]))
             [Order ''B'' (- 50) NoPrice ''MARKET'' None] 1 [''B'' \<mapsto> 12])) =
     [(''B'', - 50, 12, 100)]"
    by code_simp
qed

theorem sell_trade_realized_pnl_witness:
  "\<exists>t \<in> set (fst (execute_orders
             (snd (execute_orders (ExecutionEngine 500 0 0)
                     [Order ''B'' 50 NoPrice ''MARKET'' None] 0 [''B'' \<mapsto> 10]))
             [Order ''B'' (- 50) NoPrice ''MARKET'' None] 1 [''B'' \<mapsto> 12])).
      quantity t < 0 \<and>
      (\<exists>pos. map_of (positions (portfolio
                 (snd (execute_orders (ExecutionEngine 500 0 0)
                     [Order ''B'' 50 NoPrice ''MARKET'' None] 0 [''B'' \<mapsto> 10]))))
               (symbol t) = Some pos \<and>
             cost_basis pos = 10 \<and>
             pnl t = of_int \<bar>quantity t\<bar> * (execution_price t - cost_basis pos)) \<and>
      pnl t = 100"
proof -
  let ?eng = "snd (execute_orders (ExecutionEngine 500 0 0)
                     [Order ''B'' 50 NoPrice ''MARKET'' None] 0 [''B'' \<mapsto> 10])"
  let ?t = "\<lparr>quantity = - 50, symbol = ''B'', order_type = ''MARKET'', order_date = None,
             execution_date = 1, execution_price = 12, commission = 0, amount = - 600,
             pnl = 100\<rparr>"
  have e: "fst (execute_orders ?eng [Order ''B'' (- 50) NoPrice ''MARKET'' None] 1
                  [''B'' \<mapsto> 12]) = [?t]"
    by code_simp
  have p: "positions (portfolio ?eng) =
             [(''B'', \<lparr>quantity = 50, cost_basis = 10, market_value = 500\<rparr>)]"
    by code_simp
  from sell_trade_realized_pnl
         [of ?eng "[Order ''B'' (- 50) NoPrice ''MARKET'' None]" 1 "[''B'' \<mapsto> 12]"]
  show ?thesis
    unfolding e p by simp
qed

subsection \<open>Buys\<close>



section \<open>Properties of the date loop\<close>

text \<open>
  C3 (evaluation of a failing input). Two dates, of which only the first is a rebalance
  date. On the second date the loop reuses the signals of the first, plans an order
  and executes it: the trade log ends with a trade on the non-rebalance date.
\<close>

theorem stale_signals_trade_on_non_rebalance_date:
  "\<not> should_rebalance 1 [0] \<and>
   (case run_backtest
           \<lparr>capital = 1000, commission_rate = 0, slippage_rate = 0,
            strategy_commission_rate = None, strategy_slippage_rate = None,
            execution_delay = 0\<rparr>
           [(0, [''A'' \<mapsto> 100]), (1, [''A'' \<mapsto> 80])] [0 \<mapsto> [(''A'', 1 / 2)]] [0] of
      Inr st \<Rightarrow>
        map (\<lambda>t. (execution_date t, symbol t, quantity t)) (trade_log (execution_engine st)) =
          [(0, ''A'', 5), (1, ''A'', 1)]
    | Inl e \<Rightarrow> False)"
  by code_simp

text \<open>
  C2 (evaluation of a failing input). Execution delay 1, rebalance on date 0, date 1 in
  the price table. When the iteration of date 0 ends, the planned order is already
  executed, dated 1 and at the price of date 1, and nothing is pending for date 1.
\<close>

theorem delayed_orders_execute_at_once:
  "(case run_date
           \<lparr>capital = 1000, commission_rate = 0, slippage_rate = 0,
            strategy_commission_rate = None, strategy_slippage_rate = None,
            execution_delay = 1\<rparr>
           [(0, [''A'' \<mapsto> 100]), (1, [''A'' \<mapsto> 80])] [0 \<mapsto> [(''A'', 1 / 2)]] [0]
           (BacktestEngine
              \<lparr>capital = 1000, commission_rate = 0, slippage_rate = 0,
               strategy_commission_rate = None, strategy_slippage_rate = None,
               execution_delay = 1\<rparr>)
           (0, [''A'' \<mapsto> 100]) of
      Inr st \<Rightarrow>
        pending_orders st 1 = None \<and>
        map (\<lambda>t. (execution_date t, symbol t, quantity t, execution_price t))
          (trade_log (execution_engine st)) = [(1, ''A'', 5, 80)] \<and>
        cash (portfolio (execution_engine st)) = 600
    | Inl e \<Rightarrow> False)"
  by code_simp

text \<open>
  C1 (evaluation of a failing input). \<open>run_backtest_with_signals\<close> with capital 1000,
  no commission, no slippage, target weight 1 for A, price 100 on date 0 and 110 on date
  1. On date 0 the planner buys 9 shares (cash 100); the loop applies the returned trade
  again, which leaves 18 shares and a cash of -800. On date 1 the planner sells 7
  shares, and when \<open>execute_orders\<close> returns the cash is -30.
\<close>

theorem reapplied_trades_leave_negative_cash:
  "(let cfg = \<lparr>capital = 1000, commission_rate = 0, slippage_rate = 0,
               strategy_commission_rate = None, strategy_slippage_rate = None,
               execution_delay = 0\<rparr>;
        signal_rows = [0 \<mapsto> [(''A'', 1)], 1 \<mapsto> [(''A'', 1)]];
        st1 = run_signals_date cfg signal_rows (initialize_components cfg) (0, [''A'' \<mapsto> 100])
    in map (\<lambda>t. (execution_date t, quantity t)) (run_trade_log st1) = [(0, 9)] \<and>
       map (\<lambda>kv. quantity (snd kv)) (positions (portfolio (run_engine st1))) = [18] \<and>
       cash (portfolio (run_engine st1)) = - 800 \<and>
       (case snd (plan_and_execute cfg (run_engine st1) [(''A'', 1)] 1 [''A'' \<mapsto> 110]) of
          Some res \<Rightarrow>
            map (\<lambda>t. (execution_date t, quantity t)) (fst res) = [(1, - 7)] \<and>
            cash (portfolio (snd res)) = - 30
        | None \<Rightarrow> False))"
  by code_simp

text \<open>
  Nothing bounds the slippage rate either: with a rate of 2 the execution price of a
  sell is negative and its amount positive. Capital 1000, buy 3 shares of A at price 100
  (execution price 300, cash 100), then sell them: cash -200.
\<close>

lemma negative_cash_with_slippage_above_one:
  "cash (portfolio (snd (execute_orders
      (snd (execute_orders (ExecutionEngine 1000 0 2)
              [Order ''A'' 3 NoPrice ''MARKET'' None] 0 [''A'' \<mapsto> 100]))
      [Order ''A'' (- 3) NoPrice ''MARKET'' None] 1 [''A'' \<mapsto> 100]))) = - 200"
  by code_simp

end
